theory Spec2Isabelle
  imports Main "HOL-Library.Word" "HOL-Library.AList" "HOL-Library.Multiset"
begin

section \<open>Gallery service over an S3 bucket: the model of src/index.ts\<close>

text \<open>
  The service is a set of Express handlers that call a MinIO client. The handlers are
  translated from \<^verbatim>\<open>src/src/index.ts\<close>. The client and the HTTP response object belong
  to libraries outside the repository; the operations the handlers call are modelled with
  the behaviour the specification (sections 3 and 6) and the libraries' documentation
  give them. A string is a list of 8-bit characters, a byte is an 8-bit word.
\<close>

subsection \<open>Errors and responses\<close>

type_synonym byte = "8 word"

text \<open>What a \<^verbatim>\<open>try\<close> block of the source can catch.\<close>

datatype err =
    NoSuchKey
  | StoreFailure string
  | TypeError string

record entry =
  ent_name :: string
  ent_size :: nat

text \<open>
  The body of a response: a rendered view with its data (\<^verbatim>\<open>res.render\<close>), a raw text
  (\<^verbatim>\<open>res.send\<close>), the bytes piped into the response, or the body of a redirect.
\<close>

datatype body =
    NoBody
  | IndexView "entry list" string
  | ErrorView string
  | RawText string
  | Piped "byte list"
  | Redirect string

record response =
  status :: nat
  headers :: "(string \<times> string) list"
  body :: body

text \<open>The response object a handler receives: status 200, no header, nothing written.\<close>

definition res0 :: response where
  "res0 = \<lparr>status = 200, headers = [], body = NoBody\<rparr>"

definition set_status :: "nat \<Rightarrow> response \<Rightarrow> response" where
  "set_status c r = r\<lparr>status := c\<rparr>"

definition render :: "body \<Rightarrow> response \<Rightarrow> response" where
  "render v r = r\<lparr>body := v\<rparr>"

definition send :: "string \<Rightarrow> response \<Rightarrow> response" where
  "send s r = r\<lparr>body := RawText s\<rparr>"

text \<open>\<^verbatim>\<open>res.redirect(url)\<close>: status 302 and a Location header.\<close>

definition redirect :: "string \<Rightarrow> response \<Rightarrow> response" where
  "redirect url r =
     r\<lparr>status := 302, headers := AList.update ''Location'' url (headers r), body := Redirect url\<rparr>"

text \<open>
  Node accepts a header value only when it is defined and every character is a tab or
  lies in 0x20..0x7e or 0x80..0xff; \<^verbatim>\<open>res.setHeader\<close> throws a TypeError otherwise.
\<close>

definition valid_header_char :: "char \<Rightarrow> bool" where
  "valid_header_char c =
     (let n = (of_char c :: nat) in n = 9 \<or> (32 \<le> n \<and> n \<le> 126) \<or> 128 \<le> n)"

definition valid_header_value :: "string \<Rightarrow> bool" where
  "valid_header_value s = list_all valid_header_char s"

definition setHeader :: "string \<Rightarrow> string option \<Rightarrow> response \<Rightarrow> err + response" where
  "setHeader h v r =
     (case v of
        None \<Rightarrow> Inl (TypeError ''ERR_HTTP_INVALID_HEADER_VALUE'')
      | Some s \<Rightarrow>
          if valid_header_value s then Inr (r\<lparr>headers := AList.update h s (headers r)\<rparr>)
          else Inl (TypeError ''ERR_INVALID_CHAR''))"

text \<open>
  \<^verbatim>\<open>stream.pipe(res)\<close>: every chunk of the read stream is written to the response, in the
  order of arrival.
\<close>

fun write_chunks :: "byte list \<Rightarrow> byte list list \<Rightarrow> byte list" where
  "write_chunks sent [] = sent"
| "write_chunks sent (c # cs) = write_chunks (sent @ c) cs"

definition pipe :: "byte list list \<Rightarrow> response \<Rightarrow> response" where
  "pipe chunks r = r\<lparr>body := Piped (write_chunks [] chunks)\<rparr>"

text \<open>
  The outcome of a handler: a response, an exception that no \<^verbatim>\<open>try\<close> block of the
  handler encloses (the handler writes nothing to the response; thrown in an event
  listener, it ends the Node process), or no response at all.
\<close>

datatype outcome =
    Responded response
  | Uncaught err
  | Pending

subsection \<open>The object store\<close>

text \<open>
  Modelled from the spec: the object store client (the \<^verbatim>\<open>minio\<close> package) is not part of
  the repository. Section 3 gives an object a key, a byte payload, a byte size and a
  content-type metadata value; section 6 lists the operations. The bucket is an
  association list from keys to objects. Every operation takes the failure the store
  raises on that call, if any (\<open>None\<close>: the store answers).
\<close>

record s3object =
  payload :: "byte list"
  osize :: nat
  content_type :: "string option"

type_synonym bucket = "(string \<times> s3object) list"

record bucket_item =
  item_name :: "string option"
  item_size :: nat

record stat =
  stat_size :: nat
  meta_content_type :: "string option"

datatype 'a stream_event = Data 'a | Error err | End

text \<open>
  How a listing goes wrong: the call itself throws, or the stream raises an error event
  after it delivered the first \<open>n\<close> items.
\<close>

datatype list_fault = ListThrows err | ListStreamError nat err

text \<open>
  Modelled from the spec: list-objects (section 6) enumerates every object of the bucket
  as a key/size pair, over a finite one-shot stream (section 4.1).
\<close>

definition items_of :: "bucket \<Rightarrow> bucket_item list" where
  "items_of b = map (\<lambda>(k, ob). \<lparr>item_name = Some k, item_size = osize ob\<rparr>) b"

text \<open>
  Modelled from the spec: the listing stream delivers the items and ends, or fails in one
  of the two ways above.
\<close>

definition listObjects :: "list_fault option \<Rightarrow> bucket \<Rightarrow> err + bucket_item stream_event list" where
  "listObjects fault b =
     (case fault of
        None \<Rightarrow> Inr (map Data (items_of b) @ [End])
      | Some (ListThrows e) \<Rightarrow> Inl e
      | Some (ListStreamError n e) \<Rightarrow> Inr (map Data (take n (items_of b)) @ [Error e]))"

text \<open>
  Modelled from the spec: put-object (section 6) takes the key, the bytes, the declared
  length and the content-type metadata; the object under any other key is untouched.
\<close>

definition putObject ::
  "err option \<Rightarrow> bucket \<Rightarrow> string \<Rightarrow> byte list \<Rightarrow> nat \<Rightarrow> string \<Rightarrow> err + bucket" where
  "putObject fault b key buf len ctype =
     (case fault of
        Some e \<Rightarrow> Inl e
      | None \<Rightarrow> Inr (AList.update key \<lparr>payload = buf, osize = len, content_type = Some ctype\<rparr> b))"

text \<open>
  Modelled from the spec: stat-object (section 6) returns the metadata of the object,
  including its content-type, and fails for a key the bucket does not hold.
\<close>

definition statObject :: "err option \<Rightarrow> bucket \<Rightarrow> string \<Rightarrow> err + stat" where
  "statObject fault b key =
     (case fault of
        Some e \<Rightarrow> Inl e
      | None \<Rightarrow>
          (case map_of b key of
             None \<Rightarrow> Inl NoSuchKey
           | Some ob \<Rightarrow> Inr \<lparr>stat_size = osize ob, meta_content_type = content_type ob\<rparr>))"

text \<open>
  Modelled from the spec: get-object (section 6) returns the bytes of the object as a
  stream. The stream delivers the payload in chunks; where it cuts is the store's choice,
  here every \<open>n\<close> bytes (not at all for \<open>n = 0\<close>).
\<close>

function chunked :: "nat \<Rightarrow> 'a list \<Rightarrow> 'a list list" where
  "chunked n xs =
     (if xs = [] then []
      else if n = 0 \<or> length xs \<le> n then [xs]
      else take n xs # chunked n (drop n xs))"
  by pat_completeness auto
termination
  by (relation "measure (\<lambda>(n, xs). length xs)") auto

declare chunked.simps [simp del]

text \<open>
  Modelled from the spec: get-object fails for a key the bucket does not hold.
\<close>

definition getObject :: "err option \<Rightarrow> nat \<Rightarrow> bucket \<Rightarrow> string \<Rightarrow> err + byte list list" where
  "getObject fault n b key =
     (case fault of
        Some e \<Rightarrow> Inl e
      | None \<Rightarrow>
          (case map_of b key of
             None \<Rightarrow> Inl NoSuchKey
           | Some ob \<Rightarrow> Inr (chunked n (payload ob))))"


text \<open>
  Modelled from the spec: the bucket-exists check and create-bucket (section 6). The store
  as the startup sequence sees it: the bucket is absent or present.
\<close>

definition bucketExists :: "err option \<Rightarrow> bucket option \<Rightarrow> err + bool" where
  "bucketExists fault st =
     (case fault of
        Some e \<Rightarrow> Inl e
      | None \<Rightarrow> Inr (st \<noteq> None))"

text \<open>
  Modelled from the spec: create-bucket makes an empty bucket where none is present.
\<close>

definition makeBucket :: "err option \<Rightarrow> bucket option \<Rightarrow> err + bucket option" where
  "makeBucket fault st =
     (case fault of
        Some e \<Rightarrow> Inl e
      | None \<Rightarrow>
          (case st of
             None \<Rightarrow> Inr (Some [])
           | Some b \<Rightarrow> Inl (StoreFailure ''BucketAlreadyOwnedByYou'')))"

subsection \<open>Startup: \<^verbatim>\<open>checkBucket\<close> and \<^verbatim>\<open>app.listen\<close>\<close>

text \<open>
  What the process does at startup, in order: the calls to the store, the console lines,
  \<^verbatim>\<open>process.exit\<close> and \<^verbatim>\<open>app.listen\<close>.
\<close>

datatype effect =
    CallBucketExists
  | CallMakeBucket
  | ConsoleLog string
  | ConsoleError string
  | ProcessExit nat
  | Listen

text \<open>
  \<^verbatim>\<open>checkBucket\<close> returns the effects, the store it leaves, and the exit code when
  \<^verbatim>\<open>process.exit\<close> ended the process (nothing runs after it).
\<close>

definition checkBucket ::
  "string \<Rightarrow> err option \<Rightarrow> err option \<Rightarrow> bucket option
     \<Rightarrow> effect list \<times> bucket option \<times> nat option" where
  "checkBucket bucketName f_exists f_make st =
     (case bucketExists f_exists st of
        Inl e \<Rightarrow>
          ([CallBucketExists, ConsoleError ''Error checking or creating bucket:'', ProcessExit 1],
           st, Some 1)
      | Inr exists \<Rightarrow>
          if \<not> exists then
            (case makeBucket f_make st of
               Inl e \<Rightarrow>
                 ([CallBucketExists, CallMakeBucket,
                   ConsoleError ''Error checking or creating bucket:'', ProcessExit 1],
                  st, Some 1)
             | Inr st' \<Rightarrow>
                 ([CallBucketExists, CallMakeBucket,
                   ConsoleLog (''Bucket '' @ [CHR 0x27] @ bucketName @ [CHR 0x27]
                                 @ '' created successfully.'')],
                  st', None))
          else
            ([CallBucketExists,
              ConsoleLog (''Bucket '' @ [CHR 0x27] @ bucketName @ [CHR 0x27]
                            @ '' already exists.'')],
             st, None))"

text \<open>\<^verbatim>\<open>checkBucket().then(() => app.listen(...))\<close>.\<close>

definition start_server ::
  "string \<Rightarrow> err option \<Rightarrow> err option \<Rightarrow> bucket option \<Rightarrow> effect list \<times> bucket option" where
  "start_server bucketName f_exists f_make st =
     (case checkBucket bucketName f_exists f_make st of
        (tr, st', Some code) \<Rightarrow> (tr, st')
      | (tr, st', None) \<Rightarrow> (tr @ [Listen], st'))"

subsection \<open>\<^verbatim>\<open>GET /\<close>\<close>

text \<open>
  The data listener:
  \<^verbatim>\<open>obj.name && obj.size && objectsList.push({ name: obj.name, size: obj.size })\<close>.
  An undefined or empty name is falsy, and so is the size 0.
\<close>

definition on_data :: "entry list \<Rightarrow> bucket_item \<Rightarrow> entry list" where
  "on_data objectsList obj =
     (case item_name obj of
        None \<Rightarrow> objectsList
      | Some n \<Rightarrow>
          if n = [] then objectsList
          else if item_size obj = 0 then objectsList
          else objectsList @ [\<lparr>ent_name = n, ent_size = item_size obj\<rparr>])"

text \<open>
  The events of the stream reach the three listeners after the handler's \<^verbatim>\<open>try\<close> block
  has been left. The error listener rethrows: the exception leaves the emitter with no
  enclosing \<^verbatim>\<open>try\<close>. The end listener renders the index view; a stream emits nothing
  after it.
\<close>

fun emit :: "string \<Rightarrow> entry list \<Rightarrow> bucket_item stream_event list \<Rightarrow> outcome" where
  "emit bucketName objectsList [] = Pending"
| "emit bucketName objectsList (Data obj # evs) = emit bucketName (on_data objectsList obj) evs"
| "emit bucketName objectsList (Error e # evs) = Uncaught e"
| "emit bucketName objectsList (End # evs) =
     Responded (render (IndexView objectsList bucketName) res0)"

text \<open>
  The handler on the result of \<^verbatim>\<open>minioClient.listObjects\<close>: the \<^verbatim>\<open>catch\<close> branch runs
  only for an exception thrown while the \<^verbatim>\<open>try\<close> block itself runs, which is the call
  and the registration of the listeners.
\<close>

definition index_on :: "string \<Rightarrow> err + bucket_item stream_event list \<Rightarrow> outcome" where
  "index_on bucketName listing =
     (case listing of
        Inl e \<Rightarrow> Responded (render (ErrorView ''Failed to list objects.'') (set_status 500 res0))
      | Inr evs \<Rightarrow> emit bucketName [] evs)"

definition get_index :: "string \<Rightarrow> list_fault option \<Rightarrow> bucket \<Rightarrow> outcome" where
  "get_index bucketName fault b = index_on bucketName (listObjects fault b)"

subsection \<open>\<^verbatim>\<open>POST /upload\<close>\<close>

text \<open>The file multer hands over: \<^verbatim>\<open>req.file\<close>, undefined when the form has no file part.\<close>

record upload_file =
  originalname :: string
  mimetype :: string
  buffer :: "byte list"
  file_size :: nat

text \<open>
  \<^verbatim>\<open>Date.now()\<close> is a count of milliseconds, a natural number; a template literal writes
  it in decimal digits.
\<close>

definition digit_char :: "nat \<Rightarrow> char" where
  "digit_char d = char_of (48 + d)"

function number_to_string :: "nat \<Rightarrow> string" where
  "number_to_string n =
     (if n < 10 then [digit_char n]
      else number_to_string (n div 10) @ [digit_char (n mod 10)])"
  by pat_completeness auto
termination
  by (relation "measure id") auto

declare number_to_string.simps [simp del]

definition new_objectName :: "nat \<Rightarrow> string \<Rightarrow> string" where
  "new_objectName now orig = number_to_string now @ ''-'' @ orig"

text \<open>The calls a handler issues that change the store.\<close>

datatype call = PutObject string | RemoveObject string

definition post_upload ::
  "nat \<Rightarrow> err option \<Rightarrow> upload_file option \<Rightarrow> bucket \<Rightarrow> response \<times> bucket \<times> call list" where
  "post_upload now fault file b =
     (case file of
        None \<Rightarrow> (render (ErrorView ''No file uploaded.'') (set_status 400 res0), b, [])
      | Some f \<Rightarrow>
          (let objectName = new_objectName now (originalname f) in
           case putObject fault b objectName (buffer f) (file_size f) (mimetype f) of
             Inr b' \<Rightarrow> (redirect ''/'' res0, b', [PutObject objectName])
           | Inl e \<Rightarrow>
               (render (ErrorView ''Failed to upload file.'') (set_status 500 res0), b,
                [PutObject objectName])))"

subsection \<open>\<^verbatim>\<open>POST /delete\<close>\<close>


subsection \<open>\<^verbatim>\<open>GET /download/:objectName\<close>\<close>

definition download_failed :: "response \<Rightarrow> response" where
  "download_failed r =
     render (ErrorView ''Failed to download file or file not found.'') (set_status 500 r)"

definition attachment :: "string \<Rightarrow> string" where
  "attachment objectName = ''attachment; filename='' @ [CHR 0x22] @ objectName @ [CHR 0x22]"

text \<open>
  The two headers are set before \<^verbatim>\<open>getObject\<close> is called, so the \<^verbatim>\<open>catch\<close> branch
  works on the response as the statements before the exception left it.
\<close>

definition get_download ::
  "err option \<Rightarrow> err option \<Rightarrow> nat \<Rightarrow> bucket \<Rightarrow> string \<Rightarrow> response" where
  "get_download f_stat f_get n b objectName =
     (case statObject f_stat b objectName of
        Inl e \<Rightarrow> download_failed res0
      | Inr st \<Rightarrow>
          (case setHeader ''Content-Type'' (meta_content_type st) res0 of
             Inl e \<Rightarrow> download_failed res0
           | Inr r1 \<Rightarrow>
               (case setHeader ''Content-Disposition'' (Some (attachment objectName)) r1 of
                  Inl e \<Rightarrow> download_failed r1
                | Inr r2 \<Rightarrow>
                    (case getObject f_get n b objectName of
                       Inl e \<Rightarrow> download_failed r2
                     | Inr chunks \<Rightarrow> pipe chunks r2))))"

subsection \<open>\<^verbatim>\<open>GET /preview/:objectName\<close>\<close>

definition startsWith :: "string \<Rightarrow> string \<Rightarrow> bool" where
  "startsWith s p = (take (length p) s = p)"

definition preview_failed :: "response \<Rightarrow> response" where
  "preview_failed r = send ''Image not found.'' (set_status 404 r)"

text \<open>
  \<^verbatim>\<open>stat.metaData['content-type'].startsWith('image/')\<close> throws a TypeError when the
  metadata has no content-type; the \<^verbatim>\<open>catch\<close> branch handles it like every other
  exception of the block.
\<close>

definition get_preview ::
  "err option \<Rightarrow> err option \<Rightarrow> nat \<Rightarrow> bucket \<Rightarrow> string \<Rightarrow> response" where
  "get_preview f_stat f_get n b objectName =
     (case statObject f_stat b objectName of
        Inl e \<Rightarrow> preview_failed res0
      | Inr st \<Rightarrow>
          (case meta_content_type st of
             None \<Rightarrow> preview_failed res0
           | Some ct \<Rightarrow>
               if startsWith ct ''image/'' then
                 (case getObject f_get n b objectName of
                    Inl e \<Rightarrow> preview_failed res0
                  | Inr chunks \<Rightarrow>
                      (case setHeader ''Content-Type'' (Some ct) res0 of
                         Inl e \<Rightarrow> preview_failed res0
                       | Inr r1 \<Rightarrow> pipe chunks r1))
               else send ''File is not an image.'' (set_status 400 res0)))"

subsection \<open>Reference descriptions\<close>

text \<open>
  The listing as the specification words it: the items whose name and size are both
  truthy, each reduced to its name and size. These two follow the specification, the
  listener \<open>on_data\<close> above follows the source.
\<close>

definition truthy_item :: "bucket_item \<Rightarrow> bool" where
  "truthy_item obj =
     (item_name obj \<noteq> None \<and> item_name obj \<noteq> Some [] \<and> item_size obj \<noteq> 0)"

definition entry_of :: "bucket_item \<Rightarrow> entry" where
  "entry_of obj = \<lparr>ent_name = the (item_name obj), ent_size = item_size obj\<rparr>"

definition listing_of :: "bucket \<Rightarrow> entry list" where
  "listing_of b = map entry_of (filter truthy_item (items_of b))"

section \<open>Properties\<close>

subsection \<open>Listeners, streams and the decimal timestamp\<close>

lemma on_data_truthy:
  "on_data acc obj = (if truthy_item obj then acc @ [entry_of obj] else acc)"
  by (cases "item_name obj") (auto simp: on_data_def truthy_item_def entry_of_def)

lemma emit_data:
  "emit bn acc (map Data items @ evs) = emit bn (acc @ map entry_of (filter truthy_item items)) evs"
  by (induction items arbitrary: acc) (simp_all add: on_data_truthy)

lemma write_chunks_concat: "write_chunks sent cs = sent @ concat cs"
  by (induction cs arbitrary: sent) simp_all

lemma concat_chunked: "concat (chunked n xs) = xs"
proof (induction n xs rule: chunked.induct)
  case (1 n xs)
  show ?case
  proof (cases "xs = [] \<or> n = 0 \<or> length xs \<le> n")
    case True
    then show ?thesis by (auto simp: chunked.simps [of n xs])
  next
    case False
    with "1.IH" have "concat (chunked n (drop n xs)) = drop n xs" by simp
    with False show ?thesis by (simp add: chunked.simps [of n xs])
  qed
qed

lemma digit_char_inj: "a < 10 \<Longrightarrow> b < 10 \<Longrightarrow> digit_char a = digit_char b \<Longrightarrow> a = b"
proof -
  assume a: "a < 10" and b: "b < 10" and e: "digit_char a = digit_char b"
  from e have "of_char (digit_char a) = (of_char (digit_char b) :: nat)" by simp
  with a b show "a = b" by (simp add: digit_char_def)
qed

lemma digit_char_code: "d < 10 \<Longrightarrow> (of_char (digit_char d) :: nat) = 48 + d"
  by (simp add: digit_char_def)

lemma number_to_string_digits:
  "c \<in> set (number_to_string n) \<Longrightarrow> \<exists>d<10. c = digit_char d"
proof (induction n rule: number_to_string.induct)
  case (1 n)
  show ?case
  proof (cases "n < 10")
    case True
    with "1.prems" show ?thesis by (auto simp: number_to_string.simps [of n])
  next
    case False
    with "1.prems" have "c \<in> set (number_to_string (n div 10)) \<or> c = digit_char (n mod 10)"
      by (auto simp: number_to_string.simps [of n])
    then show ?thesis
    proof
      assume "c \<in> set (number_to_string (n div 10))"
      with False "1.IH" show ?thesis by simp
    next
      assume "c = digit_char (n mod 10)"
      moreover have "n mod 10 < 10" by simp
      ultimately show ?thesis by blast
    qed
  qed
qed

lemma number_to_string_nonempty: "number_to_string n \<noteq> []"
  by (subst number_to_string.simps) simp

lemma number_to_string_inj:
  "number_to_string m = number_to_string n \<Longrightarrow> m = n"
proof (induction m arbitrary: n rule: number_to_string.induct)
  case (1 m)
  show ?case
  proof (cases "m < 10")
    case m: True
    show ?thesis
    proof (cases "n < 10")
      case True
      with m "1.prems" show ?thesis
        by (simp add: number_to_string.simps [of m] number_to_string.simps [of n] digit_char_inj)
    next
      case False
      with m "1.prems" number_to_string_nonempty [of "n div 10"] show ?thesis
        by (simp add: number_to_string.simps [of m] number_to_string.simps [of n])
    qed
  next
    case m: False
    show ?thesis
    proof (cases "n < 10")
      case True
      with m "1.prems" number_to_string_nonempty [of "m div 10"] show ?thesis
        by (simp add: number_to_string.simps [of m] number_to_string.simps [of n])
    next
      case False
      with m "1.prems" have eq: "number_to_string (m div 10) = number_to_string (n div 10)"
        and d: "digit_char (m mod 10) = digit_char (n mod 10)"
        by (simp_all add: number_to_string.simps [of m] number_to_string.simps [of n])
      from m eq "1.IH" have "m div 10 = n div 10" by simp
      moreover from d have "m mod 10 = n mod 10" by (intro digit_char_inj) simp_all
      ultimately show ?thesis by (metis div_mult_mod_eq)
    qed
  qed
qed


lemmas number_to_string_numeral = number_to_string.simps [of "numeral k"] for k

lemma digit_char_values:
  "digit_char 0 = CHR ''0''" "digit_char 1 = CHR ''1''" "digit_char 2 = CHR ''2''"
  "digit_char 3 = CHR ''3''" "digit_char 4 = CHR ''4''" "digit_char 5 = CHR ''5''"
  "digit_char 6 = CHR ''6''" "digit_char 7 = CHR ''7''" "digit_char 8 = CHR ''8''"
  "digit_char 9 = CHR ''9''" "digit_char (Suc 0) = CHR ''1''"
  by (simp_all add: digit_char_def char_of_def bit_Suc_0_iff)

lemma number_to_string_small:
  "number_to_string 0 = ''0''" "number_to_string 1 = ''1''" "number_to_string (Suc 0) = ''1''"
  by (simp_all add: number_to_string.simps [of 0] number_to_string.simps [of 1]
        number_to_string.simps [of "Suc 0"] digit_char_values)

lemmas number_to_string_eval = number_to_string_numeral number_to_string_small digit_char_values

lemma emit_responded:
  "emit bn acc evs = Responded r \<Longrightarrow>
   \<exists>items rest. evs = map Data items @ End # rest
     \<and> r = \<lparr>status = 200, headers = [],
              body = IndexView (acc @ map entry_of (filter truthy_item items)) bn\<rparr>"
proof (induction bn acc evs rule: emit.induct)
  case (1 bucketName objectsList)
  then show ?case by simp
next
  case (2 bucketName objectsList obj evs)
  then obtain items rest where evs: "evs = map Data items @ End # rest"
    and r: "r = \<lparr>status = 200, headers = [],
                 body = IndexView (on_data objectsList obj @ map entry_of (filter truthy_item items))
                          bucketName\<rparr>"
    by auto
  from evs have "Data obj # evs = map Data (obj # items) @ End # rest" by simp
  moreover from r have "r = \<lparr>status = 200, headers = [],
      body = IndexView (objectsList @ map entry_of (filter truthy_item (obj # items))) bucketName\<rparr>"
    by (simp add: on_data_truthy)
  ultimately show ?case by blast
next
  case (3 bucketName objectsList e evs)
  then show ?case by simp
next
  case (4 bucketName objectsList evs)
  then have "End # evs = map Data [] @ End # evs"
    and "r = \<lparr>status = 200, headers = [],
              body = IndexView (objectsList @ map entry_of (filter truthy_item [])) bucketName\<rparr>"
    by (simp_all add: render_def res0_def)
  then show ?case by blast
qed

lemma index_on_ended:
  "index_on bn (Inr (map Data items @ End # rest)) =
     Responded \<lparr>status = 200, headers = [],
                body = IndexView (map entry_of (filter truthy_item items)) bn\<rparr>"
  by (simp add: index_on_def emit_data render_def res0_def)

lemma get_index_listing:
  "get_index bn None b =
     Responded \<lparr>status = 200, headers = [], body = IndexView (listing_of b) bn\<rparr>"
  using index_on_ended [of bn "items_of b" "[]"]
  by (simp add: get_index_def listObjects_def listing_of_def)

lemma checkBucket_cases:
  "checkBucket bn f_exists f_make st =
     (if f_exists \<noteq> None then
        ([CallBucketExists, ConsoleError ''Error checking or creating bucket:'', ProcessExit 1],
         st, Some 1)
      else if st \<noteq> None then
        ([CallBucketExists,
          ConsoleLog (''Bucket '' @ [CHR 0x27] @ bn @ [CHR 0x27] @ '' already exists.'')],
         st, None)
      else if f_make \<noteq> None then
        ([CallBucketExists, CallMakeBucket,
          ConsoleError ''Error checking or creating bucket:'', ProcessExit 1], st, Some 1)
      else
        ([CallBucketExists, CallMakeBucket,
          ConsoleLog (''Bucket '' @ [CHR 0x27] @ bn @ [CHR 0x27] @ '' created successfully.'')],
         Some [], None))"
  by (auto simp: checkBucket_def bucketExists_def makeBucket_def split: option.splits)

subsection \<open>Header values, keys and the stored objects\<close>

lemma valid_attachment: "valid_header_value (attachment k) = valid_header_value k"
  by (simp add: attachment_def valid_header_value_def valid_header_char_def)

lemma valid_digit_char: "d < 10 \<Longrightarrow> valid_header_char (digit_char d)"
  by (simp add: valid_header_char_def digit_char_code)

lemma valid_number_to_string: "valid_header_value (number_to_string n)"
  unfolding valid_header_value_def list_all_iff
  using number_to_string_digits valid_digit_char by blast

lemma valid_new_objectName:
  "valid_header_value (new_objectName now orig) = valid_header_value orig"
  using valid_number_to_string [of now]
  by (simp add: new_objectName_def valid_header_value_def valid_header_char_def)

lemma hyphen_not_digit: "CHR ''-'' \<notin> set (number_to_string n)"
proof
  assume "CHR ''-'' \<in> set (number_to_string n)"
  then obtain d where d: "d < 10" and c: "CHR ''-'' = digit_char d"
    using number_to_string_digits by blast
  from c have "(of_char (CHR ''-'') :: nat) = of_char (digit_char d)" by simp
  with d show False by (simp add: digit_char_code)
qed

lemma split_at_separator:
  "a \<notin> set xs \<Longrightarrow> a \<notin> set xs' \<Longrightarrow> xs @ a # ys = xs' @ a # ys' \<Longrightarrow> xs = xs' \<and> ys = ys'"
proof (induction xs arbitrary: xs')
  case Nil
  then show ?case by (cases xs') auto
next
  case (Cons x xs)
  then show ?case by (cases xs') auto
qed

lemma new_objectName_inj:
  "new_objectName t F = new_objectName t' F' \<longleftrightarrow> t = t' \<and> F = F'"
proof
  assume "new_objectName t F = new_objectName t' F'"
  then have "number_to_string t @ CHR ''-'' # F = number_to_string t' @ CHR ''-'' # F'"
    by (simp add: new_objectName_def)
  from split_at_separator [OF hyphen_not_digit hyphen_not_digit this]
  have "number_to_string t = number_to_string t'" and "F = F'" by simp_all
  then show "t = t' \<and> F = F'" by (simp add: number_to_string_inj)
qed simp

lemma new_objectName_nonempty: "new_objectName now orig \<noteq> []"
  by (simp add: new_objectName_def)

lemma download_stored:
  "map_of b k = Some ob \<Longrightarrow> content_type ob = Some ct \<Longrightarrow> valid_header_value ct \<Longrightarrow>
   valid_header_value k \<Longrightarrow>
   get_download None None n b k =
     \<lparr>status = 200, headers = [(''Content-Type'', ct), (''Content-Disposition'', attachment k)],
      body = Piped (payload ob)\<rparr>"
  by (simp add: get_download_def statObject_def getObject_def setHeader_def valid_attachment
        pipe_def write_chunks_concat concat_chunked res0_def)

lemma update_fresh_append: "k \<notin> fst ` set b \<Longrightarrow> AList.update k v b = b @ [(k, v)]"
  by (induction b) auto

lemma listing_of_append: "listing_of (b @ c) = listing_of b @ listing_of c"
  by (simp add: listing_of_def items_of_def)

lemma listing_of_single:
  "listing_of [(k, ob)] =
     (if k \<noteq> [] \<and> osize ob \<noteq> 0 then [\<lparr>ent_name = k, ent_size = osize ob\<rparr>] else [])"
  by (simp add: listing_of_def items_of_def truthy_item_def entry_of_def)

lemma listing_names: "ent_name ` set (listing_of b) \<subseteq> fst ` set b"
  by (force simp: listing_of_def items_of_def entry_of_def)

lemma valid_header_value_simps:
  "valid_header_value [] = True"
  "valid_header_value (c # cs) = (valid_header_char c \<and> valid_header_value cs)"
  by (simp_all add: valid_header_value_def)

lemma getObject_payload:
  "getObject f_get n b k = Inr chunks \<Longrightarrow>
   \<exists>ob. map_of b k = Some ob \<and> concat chunks = payload ob"
  by (auto simp: getObject_def concat_chunked split: option.splits)

lemma statObject_stored:
  "statObject f_stat b k = Inr st \<Longrightarrow>
   \<exists>ob. map_of b k = Some ob \<and> meta_content_type st = content_type ob \<and> stat_size st = osize ob"
  by (auto simp: statObject_def split: option.splits)

subsection \<open>The listing page\<close>

text \<open>
  Claim C5. A listing stream that delivers its items and ends makes \<^verbatim>\<open>GET /\<close> render
  the index view with status 200. The rendered entries are the items whose name and size
  are both truthy, in the order the stream delivered them; no rendered entry has size 0
  or an empty name, and no item of size 0 is among the items kept. Conversely, whenever
  the index view is rendered, the stream delivered some items and then ended, and the
  rendered entries are the truthy ones among these items, in order.
\<close>

theorem index_lists_truthy_items_in_stream_order:
  "index_on bucketName (Inr (map Data items @ End # rest)) =
     Responded \<lparr>status = 200, headers = [],
                body = IndexView (map entry_of (filter truthy_item items)) bucketName\<rparr>
   \<and> (\<forall>e \<in> set (map entry_of (filter truthy_item items)). ent_size e \<noteq> 0 \<and> ent_name e \<noteq> [])
   \<and> (\<forall>obj \<in> set items. item_size obj = 0 \<longrightarrow> obj \<notin> set (filter truthy_item items))
   \<and> (\<forall>evs es bn. index_on bucketName (Inr evs) =
                      Responded \<lparr>status = 200, headers = [], body = IndexView es bn\<rparr> \<longrightarrow>
          (\<exists>items' rest'. evs = map Data items' @ End # rest'
             \<and> es = map entry_of (filter truthy_item items')))"
proof -
  have "\<And>evs es bn. index_on bucketName (Inr evs) =
                      Responded \<lparr>status = 200, headers = [], body = IndexView es bn\<rparr> \<Longrightarrow>
          \<exists>items' rest'. evs = map Data items' @ End # rest'
             \<and> es = map entry_of (filter truthy_item items')"
  proof -
    fix evs es bn
    assume "index_on bucketName (Inr evs) =
              Responded \<lparr>status = 200, headers = [], body = IndexView es bn\<rparr>"
    then have "emit bucketName [] evs =
              Responded \<lparr>status = 200, headers = [], body = IndexView es bn\<rparr>"
      by (simp add: index_on_def)
    from emit_responded [OF this]
    show "\<exists>items' rest'. evs = map Data items' @ End # rest'
             \<and> es = map entry_of (filter truthy_item items')"
      by auto
  qed
  then show ?thesis
    by (auto simp: index_on_ended truthy_item_def entry_of_def)
qed

theorem index_lists_truthy_items_witness:
  "index_on ''gallery''
     (Inr [Data \<lparr>item_name = Some ''a.png'', item_size = 3\<rparr>,
           Data \<lparr>item_name = Some ''empty.txt'', item_size = 0\<rparr>,
           Data \<lparr>item_name = None, item_size = 7\<rparr>,
           Data \<lparr>item_name = Some ''b.txt'', item_size = 1\<rparr>,
           End]) =
     Responded \<lparr>status = 200, headers = [],
                body = IndexView [\<lparr>ent_name = ''a.png'', ent_size = 3\<rparr>,
                                  \<lparr>ent_name = ''b.txt'', ent_size = 1\<rparr>] ''gallery''\<rparr>"
  using index_lists_truthy_items_in_stream_order
    [of "''gallery''"
        "[\<lparr>item_name = Some ''a.png'', item_size = 3\<rparr>,
          \<lparr>item_name = Some ''empty.txt'', item_size = 0\<rparr>,
          \<lparr>item_name = None, item_size = 7\<rparr>,
          \<lparr>item_name = Some ''b.txt'', item_size = 1\<rparr>]" "[]"]
  by (simp add: truthy_item_def entry_of_def)

text \<open>
  Claim C2. The claim asks for the error view with status 500 on every listing error. The
  handler does so when \<^verbatim>\<open>listObjects\<close> itself throws. An error event of the stream
  reaches the listener that rethrows it after the \<^verbatim>\<open>try\<close> block has been left: the
  exception is uncaught and no response is rendered, whatever the stream delivered before
  and whatever would follow.
\<close>

theorem stream_error_escapes_the_try_block:
  "index_on bucketName (Inr (map Data items @ Error e # rest)) = Uncaught e
   \<and> get_index bucketName (Some (ListStreamError n e)) b = Uncaught e
   \<and> get_index bucketName (Some (ListThrows e)) b =
       Responded \<lparr>status = 500, headers = [], body = ErrorView ''Failed to list objects.''\<rparr>"
  by (simp add: index_on_def get_index_def listObjects_def emit_data render_def set_status_def
        res0_def)

subsection \<open>Requests that are rejected\<close>

text \<open>
  Claim C7. \<^verbatim>\<open>POST /upload\<close> without a file part answers 400 with the error view, leaves
  the bucket as it was and issues no call to the store, whatever the time and whatever the
  store would have answered.
\<close>

theorem upload_without_file_is_rejected:
  "post_upload now fault None b =
     (\<lparr>status = 400, headers = [], body = ErrorView ''No file uploaded.''\<rparr>, b, [])"
  by (simp add: post_upload_def render_def set_status_def res0_def)




subsection \<open>Startup\<close>

text \<open>
  Claim C9. In the effects of a startup, \<^verbatim>\<open>app.listen\<close> occurs only as the last one, after
  the existence check, after the creation when the bucket was absent, with no exit before
  it and with the bucket present in the store. It does occur when the check and the
  creation (where needed) succeed. When the check fails, or the bucket is absent and the
  creation fails, the effects end with \<^verbatim>\<open>process.exit(1)\<close>, \<^verbatim>\<open>app.listen\<close> is not
  among them and the store is untouched.
\<close>

theorem server_listens_only_after_bucket_is_ready:
  assumes "start_server bucketName f_exists f_make st = (tr, st')"
  shows "(Listen \<in> set tr \<longrightarrow>
            (\<exists>pre. tr = CallBucketExists # pre @ [Listen] \<and> Listen \<notin> set pre
               \<and> (st = None \<longrightarrow> CallMakeBucket \<in> set pre)
               \<and> (\<forall>c. ProcessExit c \<notin> set pre) \<and> st' \<noteq> None))
       \<and> (f_exists = None \<and> (st = None \<longrightarrow> f_make = None) \<longrightarrow> Listen \<in> set tr)
       \<and> (f_exists \<noteq> None \<or> (st = None \<and> f_make \<noteq> None) \<longrightarrow>
            Listen \<notin> set tr \<and> last tr = ProcessExit 1 \<and> st' = st)"
  using assms
  by (auto simp: start_server_def checkBucket_cases split: if_splits)

theorem server_listens_only_after_bucket_is_ready_witness:
  "start_server ''gallery'' None None None =
     ([CallBucketExists, CallMakeBucket,
       ConsoleLog (''Bucket '' @ [CHR 0x27] @ ''gallery'' @ [CHR 0x27] @ '' created successfully.''),
       Listen], Some [])
   \<and> start_server ''gallery'' None (Some (StoreFailure ''AccessDenied'')) None =
     ([CallBucketExists, CallMakeBucket,
       ConsoleError ''Error checking or creating bucket:'', ProcessExit 1], None)"
proof -
  have ok: "start_server ''gallery'' None None None =
     ([CallBucketExists, CallMakeBucket,
       ConsoleLog (''Bucket '' @ [CHR 0x27] @ ''gallery'' @ [CHR 0x27] @ '' created successfully.''),
       Listen], Some [])"
    by (simp add: start_server_def checkBucket_cases)
  have bad: "start_server ''gallery'' None (Some (StoreFailure ''AccessDenied'')) None =
     ([CallBucketExists, CallMakeBucket,
       ConsoleError ''Error checking or creating bucket:'', ProcessExit 1], None)"
    by (simp add: start_server_def checkBucket_cases)
  from server_listens_only_after_bucket_is_ready [OF ok]
       server_listens_only_after_bucket_is_ready [OF bad] ok bad
  show ?thesis by simp
qed

subsection \<open>Preview\<close>

text \<open>
  Claim C10. When the stat succeeds and the metadata it returns has no content-type,
  \<^verbatim>\<open>GET /preview/:objectName\<close> answers 404 with the raw text the \<^verbatim>\<open>catch\<close> branch
  sends (\<^verbatim>\<open>Image not found.\<close>), not 400, whatever \<^verbatim>\<open>getObject\<close> would have answered.
\<close>

theorem preview_without_content_type_is_not_found:
  "statObject f_stat b objectName = Inr st \<Longrightarrow> meta_content_type st = None \<Longrightarrow>
   get_preview f_stat f_get n b objectName =
     \<lparr>status = 404, headers = [], body = RawText ''Image not found.''\<rparr>"
  by (simp add: get_preview_def preview_failed_def send_def set_status_def res0_def)

theorem preview_without_content_type_witness:
  "statObject None [(''raw'', \<lparr>payload = [1, 2], osize = 2, content_type = None\<rparr>)] ''raw'' =
     Inr \<lparr>stat_size = 2, meta_content_type = None\<rparr>
   \<and> get_preview None None 0
        [(''raw'', \<lparr>payload = [1, 2], osize = 2, content_type = None\<rparr>)] ''raw'' =
     \<lparr>status = 404, headers = [], body = RawText ''Image not found.''\<rparr>"
proof -
  have h: "statObject None [(''raw'', \<lparr>payload = [1, 2], osize = 2, content_type = None\<rparr>)] ''raw'' =
     Inr \<lparr>stat_size = 2, meta_content_type = None\<rparr>"
    by (simp add: statObject_def)
  from preview_without_content_type_is_not_found [OF h, of None 0] h show ?thesis by simp
qed

text \<open>
  Claim C4, as amended. \<^verbatim>\<open>GET /preview/:objectName\<close> answers 404 with the raw text
  \<^verbatim>\<open>Image not found.\<close> when the stat fails, when the metadata has no content-type, and
  when the content-type begins with \<^verbatim>\<open>image/\<close> but \<^verbatim>\<open>getObject\<close> fails or the
  content-type is no legal header value. It answers 400 with the raw text
  \<^verbatim>\<open>File is not an image.\<close> when the stored content-type does not begin with
  \<^verbatim>\<open>image/\<close>. Otherwise the response has status 200, the stored content-type as its only
  header (no Content-Disposition) and the bytes of the stored object as body.
\<close>

theorem preview_responses:
  "(statObject f_stat b objectName = Inl e \<longrightarrow>
      get_preview f_stat f_get n b objectName =
        \<lparr>status = 404, headers = [], body = RawText ''Image not found.''\<rparr>)
   \<and> (statObject f_stat b objectName = Inr st \<and> meta_content_type st = None \<longrightarrow>
      get_preview f_stat f_get n b objectName =
        \<lparr>status = 404, headers = [], body = RawText ''Image not found.''\<rparr>)
   \<and> (statObject f_stat b objectName = Inr st \<and> meta_content_type st = Some ct
        \<and> \<not> startsWith ct ''image/'' \<longrightarrow>
      get_preview f_stat f_get n b objectName =
        \<lparr>status = 400, headers = [], body = RawText ''File is not an image.''\<rparr>)
   \<and> (statObject f_stat b objectName = Inr st \<and> meta_content_type st = Some ct
        \<and> startsWith ct ''image/'' \<and> getObject f_get n b objectName = Inr chunks
        \<and> valid_header_value ct \<longrightarrow>
      get_preview f_stat f_get n b objectName =
        \<lparr>status = 200, headers = [(''Content-Type'', ct)], body = Piped (concat chunks)\<rparr>
      \<and> map_of (headers (get_preview f_stat f_get n b objectName)) ''Content-Disposition'' = None
      \<and> (\<exists>ob. map_of b objectName = Some ob \<and> concat chunks = payload ob))
   \<and> (statObject f_stat b objectName = Inr st \<and> meta_content_type st = Some ct
        \<and> startsWith ct ''image/''
        \<and> (getObject f_get n b objectName = Inl e' \<or> \<not> valid_header_value ct) \<longrightarrow>
      get_preview f_stat f_get n b objectName =
        \<lparr>status = 404, headers = [], body = RawText ''Image not found.''\<rparr>)"
proof (intro conjI impI)
  assume "statObject f_stat b objectName = Inl e"
  then show "get_preview f_stat f_get n b objectName =
        \<lparr>status = 404, headers = [], body = RawText ''Image not found.''\<rparr>"
    by (simp add: get_preview_def preview_failed_def send_def set_status_def res0_def)
next
  assume "statObject f_stat b objectName = Inr st \<and> meta_content_type st = None"
  then show "get_preview f_stat f_get n b objectName =
        \<lparr>status = 404, headers = [], body = RawText ''Image not found.''\<rparr>"
    by (simp add: get_preview_def preview_failed_def send_def set_status_def res0_def)
next
  assume "statObject f_stat b objectName = Inr st \<and> meta_content_type st = Some ct
        \<and> \<not> startsWith ct ''image/''"
  then show "get_preview f_stat f_get n b objectName =
        \<lparr>status = 400, headers = [], body = RawText ''File is not an image.''\<rparr>"
    by (simp add: get_preview_def send_def set_status_def res0_def)
next
  assume a: "statObject f_stat b objectName = Inr st \<and> meta_content_type st = Some ct
        \<and> startsWith ct ''image/'' \<and> getObject f_get n b objectName = Inr chunks
        \<and> valid_header_value ct"
  then show r: "get_preview f_stat f_get n b objectName =
        \<lparr>status = 200, headers = [(''Content-Type'', ct)], body = Piped (concat chunks)\<rparr>"
    by (simp add: get_preview_def setHeader_def pipe_def write_chunks_concat res0_def)
  show "map_of (headers (get_preview f_stat f_get n b objectName)) ''Content-Disposition'' = None"
    by (simp add: r)
  from a getObject_payload
  show "\<exists>ob. map_of b objectName = Some ob \<and> concat chunks = payload ob"
    by blast
next
  assume "statObject f_stat b objectName = Inr st \<and> meta_content_type st = Some ct
        \<and> startsWith ct ''image/''
        \<and> (getObject f_get n b objectName = Inl e' \<or> \<not> valid_header_value ct)"
  then show "get_preview f_stat f_get n b objectName =
        \<lparr>status = 404, headers = [], body = RawText ''Image not found.''\<rparr>"
    by (auto simp: get_preview_def setHeader_def preview_failed_def send_def set_status_def
          res0_def split: sum.splits)
qed


theorem preview_responses_witness:
  "get_preview None None 2
     [(''17-cat.png'', \<lparr>payload = [137, 80, 78, 71, 13], osize = 5, content_type = Some ''image/png''\<rparr>),
      (''18-notes.txt'', \<lparr>payload = [104, 105], osize = 2, content_type = Some ''text/plain''\<rparr>)]
     ''missing'' = \<lparr>status = 404, headers = [], body = RawText ''Image not found.''\<rparr>
   \<and> get_preview None None 2
     [(''17-cat.png'', \<lparr>payload = [137, 80, 78, 71, 13], osize = 5, content_type = Some ''image/png''\<rparr>),
      (''18-notes.txt'', \<lparr>payload = [104, 105], osize = 2, content_type = Some ''text/plain''\<rparr>)]
     ''18-notes.txt'' = \<lparr>status = 400, headers = [], body = RawText ''File is not an image.''\<rparr>
   \<and> get_preview None None 2
     [(''17-cat.png'', \<lparr>payload = [137, 80, 78, 71, 13], osize = 5, content_type = Some ''image/png''\<rparr>),
      (''18-notes.txt'', \<lparr>payload = [104, 105], osize = 2, content_type = Some ''text/plain''\<rparr>)]
     ''17-cat.png'' =
       \<lparr>status = 200, headers = [(''Content-Type'', ''image/png'')],
        body = Piped [137, 80, 78, 71, 13]\<rparr>"
proof -
  let ?b = "[(''17-cat.png'',
              \<lparr>payload = [137, 80, 78, 71, 13 :: byte], osize = 5, content_type = Some ''image/png''\<rparr>),
             (''18-notes.txt'',
              \<lparr>payload = [104, 105], osize = 2, content_type = Some ''text/plain''\<rparr>)]"
  have miss: "statObject None ?b ''missing'' = Inl NoSuchKey"
    by (simp add: statObject_def)
  have plain: "statObject None ?b ''18-notes.txt'' =
      Inr \<lparr>stat_size = 2, meta_content_type = Some ''text/plain''\<rparr>
    \<and> meta_content_type \<lparr>stat_size = 2, meta_content_type = Some ''text/plain''\<rparr> = Some ''text/plain''
    \<and> \<not> startsWith ''text/plain'' ''image/''"
    by (simp add: statObject_def startsWith_def)
  have png: "statObject None ?b ''17-cat.png'' =
      Inr \<lparr>stat_size = 5, meta_content_type = Some ''image/png''\<rparr>
    \<and> meta_content_type \<lparr>stat_size = 5, meta_content_type = Some ''image/png''\<rparr> = Some ''image/png''
    \<and> startsWith ''image/png'' ''image/''
    \<and> getObject None 2 ?b ''17-cat.png'' = Inr [[137, 80], [78, 71], [13]]
    \<and> valid_header_value ''image/png''"
    by (simp add: statObject_def startsWith_def getObject_def chunked.simps
          valid_header_value_simps valid_header_char_def)
  from preview_responses
         [where f_stat = None and b = ?b and objectName = "''missing''" and e = NoSuchKey
            and f_get = None and n = 2]
       miss
  have r1: "get_preview None None 2 ?b ''missing'' =
      \<lparr>status = 404, headers = [], body = RawText ''Image not found.''\<rparr>"
    by blast
  from preview_responses
         [where f_stat = None and b = ?b and objectName = "''18-notes.txt''"
            and st = "\<lparr>stat_size = 2, meta_content_type = Some ''text/plain''\<rparr>"
            and ct = "''text/plain''" and f_get = None and n = 2]
       plain
  have r2: "get_preview None None 2 ?b ''18-notes.txt'' =
      \<lparr>status = 400, headers = [], body = RawText ''File is not an image.''\<rparr>"
    by blast
  from preview_responses
         [where f_stat = None and b = ?b and objectName = "''17-cat.png''"
            and st = "\<lparr>stat_size = 5, meta_content_type = Some ''image/png''\<rparr>"
            and ct = "''image/png''" and f_get = None and n = 2
            and chunks = "[[137, 80], [78, 71], [13]]"]
       png
  have r3: "get_preview None None 2 ?b ''17-cat.png'' =
      \<lparr>status = 200, headers = [(''Content-Type'', ''image/png'')],
       body = Piped (concat [[137, 80], [78, 71], [13]])\<rparr>"
    by blast
  from r1 r2 r3 show ?thesis by simp
qed

text \<open>
  The claim as stated sends every request whose stat succeeds with an image content-type
  to the streaming branch. With \<^verbatim>\<open>getObject\<close> failing after such a stat, the response is
  404.
\<close>

theorem preview_after_stat_counterexample:
  "statObject None
     [(''17-cat.png'', \<lparr>payload = [137, 80, 78, 71, 13], osize = 5, content_type = Some ''image/png''\<rparr>)]
     ''17-cat.png'' = Inr \<lparr>stat_size = 5, meta_content_type = Some ''image/png''\<rparr>
   \<and> startsWith ''image/png'' ''image/''
   \<and> get_preview None (Some (StoreFailure ''connection reset'')) 0
     [(''17-cat.png'', \<lparr>payload = [137, 80, 78, 71, 13], osize = 5, content_type = Some ''image/png''\<rparr>)]
     ''17-cat.png'' = \<lparr>status = 404, headers = [], body = RawText ''Image not found.''\<rparr>"
  by (simp add: get_preview_def statObject_def getObject_def startsWith_def preview_failed_def
        send_def set_status_def res0_def)

subsection \<open>Download\<close>

text \<open>
  Claim C6, as amended. When the stat succeeds and returns a content-type, the
  content-type and the object name are legal header values, and \<^verbatim>\<open>getObject\<close>
  succeeds, the response of \<^verbatim>\<open>GET /download/:objectName\<close> has status 200, the header
  Content-Type with the stored content-type, the header Content-Disposition with
  \<^verbatim>\<open>attachment; filename="<objectName>"\<close>, and as body the chunks of the read stream
  in order, which are the bytes of the stored object.
\<close>

theorem download_sets_headers_and_streams_body:
  assumes "statObject f_stat b objectName = Inr st"
    and "meta_content_type st = Some ct"
    and "valid_header_value ct"
    and "valid_header_value objectName"
    and "getObject f_get n b objectName = Inr chunks"
  shows "get_download f_stat f_get n b objectName =
           \<lparr>status = 200,
            headers = [(''Content-Type'', ct), (''Content-Disposition'', attachment objectName)],
            body = Piped (concat chunks)\<rparr>
         \<and> (\<exists>ob. map_of b objectName = Some ob \<and> content_type ob = Some ct
                \<and> concat chunks = payload ob)"
proof -
  have "get_download f_stat f_get n b objectName =
           \<lparr>status = 200,
            headers = [(''Content-Type'', ct), (''Content-Disposition'', attachment objectName)],
            body = Piped (concat chunks)\<rparr>"
    using assms
    by (simp add: get_download_def setHeader_def valid_attachment pipe_def write_chunks_concat
          res0_def)
  moreover from statObject_stored [OF assms(1)] getObject_payload [OF assms(5)] assms(2)
  have "\<exists>ob. map_of b objectName = Some ob \<and> content_type ob = Some ct
                \<and> concat chunks = payload ob"
    by auto
  ultimately show ?thesis by simp
qed

theorem download_sets_headers_and_streams_body_witness:
  "get_download None None 2
     [(''17-cat.png'', \<lparr>payload = [137, 80, 78, 71, 13], osize = 5, content_type = Some ''image/png''\<rparr>)]
     ''17-cat.png'' =
     \<lparr>status = 200,
      headers = [(''Content-Type'', ''image/png''),
                 (''Content-Disposition'', attachment ''17-cat.png'')],
      body = Piped [137, 80, 78, 71, 13]\<rparr>"
proof -
  let ?b = "[(''17-cat.png'',
              \<lparr>payload = [137, 80, 78, 71, 13 :: byte], osize = 5, content_type = Some ''image/png''\<rparr>)]"
  have s: "statObject None ?b ''17-cat.png'' = Inr \<lparr>stat_size = 5, meta_content_type = Some ''image/png''\<rparr>"
    by (simp add: statObject_def)
  have m: "meta_content_type \<lparr>stat_size = 5, meta_content_type = Some ''image/png''\<rparr> = Some ''image/png''"
    by simp
  have v1: "valid_header_value ''image/png''"
    by (simp add: valid_header_value_def valid_header_char_def)
  have v2: "valid_header_value ''17-cat.png''"
    by (simp add: valid_header_value_def valid_header_char_def)
  have g: "getObject None 2 ?b ''17-cat.png'' = Inr [[137, 80], [78, 71], [13]]"
    by (simp add: getObject_def chunked.simps)
  from download_sets_headers_and_streams_body [OF s m v1 v2 g] show ?thesis by simp
qed

text \<open>
  The claim as stated asks only for the stat to succeed. With the stat succeeding and
  \<^verbatim>\<open>getObject\<close> failing, the response is the error view with status 500 (the two headers
  already set); for an object stored without a content-type, \<^verbatim>\<open>setHeader\<close> throws and
  the response is the same error view.
\<close>

theorem download_after_stat_counterexample:
  "statObject None
     [(''17-a.txt'', \<lparr>payload = [104, 105], osize = 2, content_type = Some ''text/plain''\<rparr>)]
     ''17-a.txt'' = Inr \<lparr>stat_size = 2, meta_content_type = Some ''text/plain''\<rparr>
   \<and> get_download None (Some (StoreFailure ''connection reset'')) 0
     [(''17-a.txt'', \<lparr>payload = [104, 105], osize = 2, content_type = Some ''text/plain''\<rparr>)]
     ''17-a.txt'' =
     \<lparr>status = 500,
      headers = [(''Content-Type'', ''text/plain''),
                 (''Content-Disposition'', attachment ''17-a.txt'')],
      body = ErrorView ''Failed to download file or file not found.''\<rparr>
   \<and> statObject None
     [(''raw'', \<lparr>payload = [104, 105], osize = 2, content_type = None\<rparr>)]
     ''raw'' = Inr \<lparr>stat_size = 2, meta_content_type = None\<rparr>
   \<and> get_download None None 0
     [(''raw'', \<lparr>payload = [104, 105], osize = 2, content_type = None\<rparr>)]
     ''raw'' =
     \<lparr>status = 500, headers = [],
      body = ErrorView ''Failed to download file or file not found.''\<rparr>"
  by (simp add: get_download_def statObject_def getObject_def setHeader_def valid_attachment
        valid_header_value_simps valid_header_char_def download_failed_def render_def
        set_status_def res0_def)

subsection \<open>Upload\<close>

lemma post_upload_stored:
  "post_upload now None (Some f) b =
     (\<lparr>status = 302, headers = [(''Location'', ''/'')], body = Redirect ''/''\<rparr>,
      AList.update (new_objectName now (originalname f))
        \<lparr>payload = buffer f, osize = file_size f, content_type = Some (mimetype f)\<rparr> b,
      [PutObject (new_objectName now (originalname f))])"
  by (simp add: post_upload_def putObject_def redirect_def res0_def Let_def)

lemma listing_of_fresh:
  assumes "k \<notin> fst ` set b" and "k \<noteq> []" and "osize ob \<noteq> 0"
  shows "listing_of (AList.update k ob b) = listing_of b @ [\<lparr>ent_name = k, ent_size = osize ob\<rparr>]"
  using assms by (simp add: update_fresh_append listing_of_append listing_of_single)

text \<open>
  Claim C1, as amended. Take an upload whose content is not empty, whose declared size is
  the length of its buffer, whose filename and MIME type are legal header values, and
  whose key is not yet in the bucket; let the store answer every call. Then the upload
  redirects to \<^verbatim>\<open>/\<close>; the listing rendered afterwards is the listing rendered before
  plus exactly one entry, which has the new key (a name the listing before did not have)
  and the length of the content as its size; and downloading that key returns status 200,
  the MIME type declared at upload as Content-Type, and the content, byte for byte.
\<close>

theorem upload_is_listed_once_and_downloads_unchanged:
  assumes nonempty: "buffer f \<noteq> []"
    and size: "file_size f = length (buffer f)"
    and fresh: "new_objectName now (originalname f) \<notin> fst ` set b"
    and mime: "valid_header_value (mimetype f)"
    and name: "valid_header_value (originalname f)"
    and up: "post_upload now None (Some f) b = (r, b', cs)"
  shows "r = \<lparr>status = 302, headers = [(''Location'', ''/'')], body = Redirect ''/''\<rparr>
    \<and> cs = [PutObject (new_objectName now (originalname f))]
    \<and> get_index bucketName None b =
         Responded \<lparr>status = 200, headers = [], body = IndexView (listing_of b) bucketName\<rparr>
    \<and> get_index bucketName None b' =
         Responded \<lparr>status = 200, headers = [], body = IndexView (listing_of b') bucketName\<rparr>
    \<and> mset (listing_of b') =
         mset (listing_of b)
           + {#\<lparr>ent_name = new_objectName now (originalname f), ent_size = length (buffer f)\<rparr>#}
    \<and> new_objectName now (originalname f) \<notin> ent_name ` set (listing_of b)
    \<and> get_download None None n b' (new_objectName now (originalname f)) =
         \<lparr>status = 200,
          headers = [(''Content-Type'', mimetype f),
                     (''Content-Disposition'', attachment (new_objectName now (originalname f)))],
          body = Piped (buffer f)\<rparr>"
proof -
  let ?k = "new_objectName now (originalname f)"
  let ?ob = "\<lparr>payload = buffer f, osize = file_size f, content_type = Some (mimetype f)\<rparr>"
  from up have r: "r = \<lparr>status = 302, headers = [(''Location'', ''/'')], body = Redirect ''/''\<rparr>"
    and b': "b' = AList.update ?k ?ob b" and cs: "cs = [PutObject ?k]"
    by (simp_all add: post_upload_stored)
  from nonempty size have "osize ?ob \<noteq> 0" by simp
  with fresh have "listing_of b' = listing_of b @ [\<lparr>ent_name = ?k, ent_size = osize ?ob\<rparr>]"
    unfolding b' by (intro listing_of_fresh new_objectName_nonempty)
  with size have l: "mset (listing_of b') =
      mset (listing_of b) + {#\<lparr>ent_name = ?k, ent_size = length (buffer f)\<rparr>#}"
    by simp
  from fresh listing_names [of b] have nf: "?k \<notin> ent_name ` set (listing_of b)" by blast
  have "map_of b' ?k = Some ?ob" by (simp add: b' update_conv')
  moreover have "content_type ?ob = Some (mimetype f)" by simp
  moreover note mime
  moreover from name have "valid_header_value ?k" by (simp add: valid_new_objectName)
  ultimately have "get_download None None n b' ?k =
      \<lparr>status = 200,
       headers = [(''Content-Type'', mimetype f), (''Content-Disposition'', attachment ?k)],
       body = Piped (payload ?ob)\<rparr>"
    by (rule download_stored)
  then have d: "get_download None None n b' ?k =
      \<lparr>status = 200,
       headers = [(''Content-Type'', mimetype f), (''Content-Disposition'', attachment ?k)],
       body = Piped (buffer f)\<rparr>"
    by simp
  from r cs l nf d show ?thesis by (simp add: get_index_listing)
qed


theorem upload_is_listed_once_witness:
  "post_upload 17 None
     (Some \<lparr>originalname = ''a.txt'', mimetype = ''text/plain'', buffer = [104, 105], file_size = 2\<rparr>)
     [(''9-old.png'', \<lparr>payload = [1, 2, 3], osize = 3, content_type = Some ''image/png''\<rparr>)] =
     (\<lparr>status = 302, headers = [(''Location'', ''/'')], body = Redirect ''/''\<rparr>,
      [(''9-old.png'', \<lparr>payload = [1, 2, 3], osize = 3, content_type = Some ''image/png''\<rparr>),
       (''17-a.txt'', \<lparr>payload = [104, 105], osize = 2, content_type = Some ''text/plain''\<rparr>)],
      [PutObject ''17-a.txt''])
   \<and> get_index ''gallery'' None
       [(''9-old.png'', \<lparr>payload = [1, 2, 3], osize = 3, content_type = Some ''image/png''\<rparr>),
        (''17-a.txt'', \<lparr>payload = [104, 105], osize = 2, content_type = Some ''text/plain''\<rparr>)] =
       Responded \<lparr>status = 200, headers = [],
                  body = IndexView [\<lparr>ent_name = ''9-old.png'', ent_size = 3\<rparr>,
                                    \<lparr>ent_name = ''17-a.txt'', ent_size = 2\<rparr>] ''gallery''\<rparr>
   \<and> get_download None None 1
       [(''9-old.png'', \<lparr>payload = [1, 2, 3], osize = 3, content_type = Some ''image/png''\<rparr>),
        (''17-a.txt'', \<lparr>payload = [104, 105], osize = 2, content_type = Some ''text/plain''\<rparr>)]
       ''17-a.txt'' =
       \<lparr>status = 200,
        headers = [(''Content-Type'', ''text/plain''),
                   (''Content-Disposition'', attachment ''17-a.txt'')],
        body = Piped [104, 105]\<rparr>"
proof -
  let ?f = "\<lparr>originalname = ''a.txt'', mimetype = ''text/plain'',
             buffer = [104, 105 :: byte], file_size = 2\<rparr>"
  let ?b = "[(''9-old.png'',
              \<lparr>payload = [1, 2, 3 :: byte], osize = 3, content_type = Some ''image/png''\<rparr>)]"
  let ?b' = "[(''9-old.png'',
               \<lparr>payload = [1, 2, 3 :: byte], osize = 3, content_type = Some ''image/png''\<rparr>),
              (''17-a.txt'',
               \<lparr>payload = [104, 105 :: byte], osize = 2, content_type = Some ''text/plain''\<rparr>)]"
  have k: "new_objectName 17 ''a.txt'' = ''17-a.txt''"
    by (simp add: new_objectName_def number_to_string_eval)
  have h1: "buffer ?f \<noteq> []" by simp
  have h2: "file_size ?f = length (buffer ?f)" by simp
  have h3: "new_objectName 17 (originalname ?f) \<notin> fst ` set ?b" by (simp add: k)
  have h4: "valid_header_value (mimetype ?f)"
    by (simp add: valid_header_value_simps valid_header_char_def)
  have h5: "valid_header_value (originalname ?f)"
    by (simp add: valid_header_value_simps valid_header_char_def)
  have up: "post_upload 17 None (Some ?f) ?b =
      (\<lparr>status = 302, headers = [(''Location'', ''/'')], body = Redirect ''/''\<rparr>, ?b',
       [PutObject ''17-a.txt''])"
    by (simp add: post_upload_stored k)
  have l: "listing_of ?b' = [\<lparr>ent_name = ''9-old.png'', ent_size = 3\<rparr>,
                            \<lparr>ent_name = ''17-a.txt'', ent_size = 2\<rparr>]"
    by (simp add: listing_of_def items_of_def truthy_item_def entry_of_def)
  from upload_is_listed_once_and_downloads_unchanged
         [OF h1 h2 h3 h4 h5 up, of "''gallery''" 1] up
  show ?thesis by (simp add: k l)
qed

text \<open>
  The claim as stated covers every content. An empty file is stored with size 0, and the
  listing after the upload is the listing before it: there is no new entry.
\<close>

theorem empty_upload_counterexample:
  "post_upload 17 None
     (Some \<lparr>originalname = ''empty.txt'', mimetype = ''text/plain'', buffer = [], file_size = 0\<rparr>)
     [] =
     (\<lparr>status = 302, headers = [(''Location'', ''/'')], body = Redirect ''/''\<rparr>,
      [(''17-empty.txt'', \<lparr>payload = [], osize = 0, content_type = Some ''text/plain''\<rparr>)],
      [PutObject ''17-empty.txt''])
   \<and> get_index ''gallery'' None [] =
       Responded \<lparr>status = 200, headers = [], body = IndexView [] ''gallery''\<rparr>
   \<and> get_index ''gallery'' None
       [(''17-empty.txt'', \<lparr>payload = [], osize = 0, content_type = Some ''text/plain''\<rparr>)] =
       Responded \<lparr>status = 200, headers = [], body = IndexView [] ''gallery''\<rparr>"
  by (simp add: post_upload_stored new_objectName_def number_to_string_eval get_index_listing
        listing_of_def items_of_def truthy_item_def)

lemma post_upload_refused:
  "post_upload now (Some e) (Some f) b =
     (\<lparr>status = 500, headers = [], body = ErrorView ''Failed to upload file.''\<rparr>, b,
      [PutObject (new_objectName now (originalname f))])"
  by (simp add: post_upload_def putObject_def render_def set_status_def res0_def Let_def)

lemma post_upload_other_keys:
  "k \<noteq> new_objectName now (originalname f) \<Longrightarrow>
   map_of (fst (snd (post_upload now fault (Some f) b))) k = map_of b k"
  by (cases fault) (simp_all add: post_upload_stored post_upload_refused update_conv')

text \<open>
  Claim C3, as amended. For every upload the key is the decimal timestamp, a hyphen and
  the original filename, whether the store accepts the object or refuses it, and no other
  pair of timestamp and filename gives the same key. An upload changes the object under
  its own key only, and after a successful upload that key holds the uploaded object: it
  replaces an object exactly when the bucket already holds that key. Two uploads with the
  same original filename at different millisecond timestamps have distinct keys. After two
  successful uploads with different keys, the key of the first downloads with the content
  and content-type of the first, and the key of the second with those of the second,
  where the filename and the content-type are legal header values.
\<close>

theorem upload_key_is_time_and_name:
  "post_upload t1 None (Some f1) b =
     (\<lparr>status = 302, headers = [(''Location'', ''/'')], body = Redirect ''/''\<rparr>,
      AList.update (number_to_string t1 @ ''-'' @ originalname f1)
        \<lparr>payload = buffer f1, osize = file_size f1, content_type = Some (mimetype f1)\<rparr> b,
      [PutObject (number_to_string t1 @ ''-'' @ originalname f1)])
   \<and> post_upload t1 (Some e) (Some f1) b =
     (\<lparr>status = 500, headers = [], body = ErrorView ''Failed to upload file.''\<rparr>, b,
      [PutObject (number_to_string t1 @ ''-'' @ originalname f1)])
   \<and> (\<forall>t F t' F'. (number_to_string t @ ''-'' @ F = number_to_string t' @ ''-'' @ F')
                     = (t = t' \<and> F = F'))
   \<and> (\<forall>fault k. k \<noteq> number_to_string t1 @ ''-'' @ originalname f1 \<longrightarrow>
         map_of (fst (snd (post_upload t1 fault (Some f1) b))) k = map_of b k)
   \<and> map_of (fst (snd (post_upload t1 None (Some f1) b)))
         (number_to_string t1 @ ''-'' @ originalname f1) =
       Some \<lparr>payload = buffer f1, osize = file_size f1, content_type = Some (mimetype f1)\<rparr>
   \<and> (t1 \<noteq> t2 \<longrightarrow>
         number_to_string t1 @ ''-'' @ originalname f1
           \<noteq> number_to_string t2 @ ''-'' @ originalname f1)
   \<and> ((t1 \<noteq> t2 \<or> originalname f1 \<noteq> originalname f2)
        \<and> valid_header_value (originalname f1) \<and> valid_header_value (mimetype f1) \<longrightarrow>
         get_download None None n
           (fst (snd (post_upload t2 None (Some f2) (fst (snd (post_upload t1 None (Some f1) b))))))
           (number_to_string t1 @ ''-'' @ originalname f1) =
         \<lparr>status = 200,
          headers = [(''Content-Type'', mimetype f1),
                     (''Content-Disposition'',
                      attachment (number_to_string t1 @ ''-'' @ originalname f1))],
          body = Piped (buffer f1)\<rparr>)
   \<and> (valid_header_value (originalname f2) \<and> valid_header_value (mimetype f2) \<longrightarrow>
         get_download None None n
           (fst (snd (post_upload t2 None (Some f2) (fst (snd (post_upload t1 None (Some f1) b))))))
           (number_to_string t2 @ ''-'' @ originalname f2) =
         \<lparr>status = 200,
          headers = [(''Content-Type'', mimetype f2),
                     (''Content-Disposition'',
                      attachment (number_to_string t2 @ ''-'' @ originalname f2))],
          body = Piped (buffer f2)\<rparr>)"
proof -
  let ?k1 = "new_objectName t1 (originalname f1)"
  let ?k2 = "new_objectName t2 (originalname f2)"
  let ?o1 = "\<lparr>payload = buffer f1, osize = file_size f1, content_type = Some (mimetype f1)\<rparr>"
  let ?o2 = "\<lparr>payload = buffer f2, osize = file_size f2, content_type = Some (mimetype f2)\<rparr>"
  let ?b1 = "fst (snd (post_upload t1 None (Some f1) b))"
  let ?b2 = "fst (snd (post_upload t2 None (Some f2) ?b1))"
  have key: "\<And>t F. number_to_string t @ ''-'' @ F = new_objectName t F"
    by (simp add: new_objectName_def)
  have b1: "?b1 = AList.update ?k1 ?o1 b" by (simp add: post_upload_stored)
  have b2: "?b2 = AList.update ?k2 ?o2 ?b1" by (simp add: post_upload_stored)
  have accepted: "post_upload t1 None (Some f1) b =
      (\<lparr>status = 302, headers = [(''Location'', ''/'')], body = Redirect ''/''\<rparr>,
       AList.update ?k1 ?o1 b, [PutObject ?k1])"
    by (rule post_upload_stored)
  have refused: "post_upload t1 (Some e) (Some f1) b =
      (\<lparr>status = 500, headers = [], body = ErrorView ''Failed to upload file.''\<rparr>, b,
       [PutObject ?k1])"
    by (rule post_upload_refused)
  have inj: "\<forall>t F t' F'. (new_objectName t F = new_objectName t' F') = (t = t' \<and> F = F')"
    by (simp add: new_objectName_inj)
  have others: "\<forall>fault k. k \<noteq> ?k1 \<longrightarrow>
      map_of (fst (snd (post_upload t1 fault (Some f1) b))) k = map_of b k"
    by (simp add: post_upload_other_keys)
  have own: "map_of ?b1 ?k1 = Some ?o1" by (simp add: b1 update_conv')
  have ne: "t1 \<noteq> t2 \<longrightarrow> ?k1 \<noteq> new_objectName t2 (originalname f1)"
    by (simp add: new_objectName_inj)
  have d1: "(t1 \<noteq> t2 \<or> originalname f1 \<noteq> originalname f2)
        \<and> valid_header_value (originalname f1) \<and> valid_header_value (mimetype f1) \<longrightarrow>
      get_download None None n ?b2 ?k1 =
        \<lparr>status = 200,
         headers = [(''Content-Type'', mimetype f1), (''Content-Disposition'', attachment ?k1)],
         body = Piped (buffer f1)\<rparr>"
  proof
    assume a: "(t1 \<noteq> t2 \<or> originalname f1 \<noteq> originalname f2)
        \<and> valid_header_value (originalname f1) \<and> valid_header_value (mimetype f1)"
    then have "?k1 \<noteq> ?k2" by (simp add: new_objectName_inj)
    with own have m: "map_of ?b2 ?k1 = Some ?o1" by (simp add: b2 update_conv')
    have c: "content_type ?o1 = Some (mimetype f1)" by simp
    from a have v: "valid_header_value (mimetype f1)" "valid_header_value ?k1"
      by (simp_all add: valid_new_objectName)
    from download_stored [OF m c v] show "get_download None None n ?b2 ?k1 =
        \<lparr>status = 200,
         headers = [(''Content-Type'', mimetype f1), (''Content-Disposition'', attachment ?k1)],
         body = Piped (buffer f1)\<rparr>"
      by simp
  qed
  have d2: "valid_header_value (originalname f2) \<and> valid_header_value (mimetype f2) \<longrightarrow>
      get_download None None n ?b2 ?k2 =
        \<lparr>status = 200,
         headers = [(''Content-Type'', mimetype f2), (''Content-Disposition'', attachment ?k2)],
         body = Piped (buffer f2)\<rparr>"
  proof
    assume a: "valid_header_value (originalname f2) \<and> valid_header_value (mimetype f2)"
    have m: "map_of ?b2 ?k2 = Some ?o2" by (simp add: b2 update_conv')
    have c: "content_type ?o2 = Some (mimetype f2)" by simp
    from a have v: "valid_header_value (mimetype f2)" "valid_header_value ?k2"
      by (simp_all add: valid_new_objectName)
    from download_stored [OF m c v] show "get_download None None n ?b2 ?k2 =
        \<lparr>status = 200,
         headers = [(''Content-Type'', mimetype f2), (''Content-Disposition'', attachment ?k2)],
         body = Piped (buffer f2)\<rparr>"
      by simp
  qed
  from accepted refused inj others own ne d1 d2 show ?thesis
    unfolding key by (intro conjI)
qed

theorem upload_key_is_time_and_name_witness:
  "post_upload 17 None
     (Some \<lparr>originalname = ''a.txt'', mimetype = ''text/plain'', buffer = [1], file_size = 1\<rparr>)
     [] =
     (\<lparr>status = 302, headers = [(''Location'', ''/'')], body = Redirect ''/''\<rparr>,
      [(''17-a.txt'', \<lparr>payload = [1], osize = 1, content_type = Some ''text/plain''\<rparr>)],
      [PutObject ''17-a.txt''])
   \<and> post_upload 18 None
     (Some \<lparr>originalname = ''a.txt'', mimetype = ''text/plain'', buffer = [2, 3], file_size = 2\<rparr>)
     [(''17-a.txt'', \<lparr>payload = [1], osize = 1, content_type = Some ''text/plain''\<rparr>)] =
     (\<lparr>status = 302, headers = [(''Location'', ''/'')], body = Redirect ''/''\<rparr>,
      [(''17-a.txt'', \<lparr>payload = [1], osize = 1, content_type = Some ''text/plain''\<rparr>),
       (''18-a.txt'', \<lparr>payload = [2, 3], osize = 2, content_type = Some ''text/plain''\<rparr>)],
      [PutObject ''18-a.txt''])
   \<and> get_download None None 0
       [(''17-a.txt'', \<lparr>payload = [1], osize = 1, content_type = Some ''text/plain''\<rparr>),
        (''18-a.txt'', \<lparr>payload = [2, 3], osize = 2, content_type = Some ''text/plain''\<rparr>)]
       ''17-a.txt'' =
       \<lparr>status = 200,
        headers = [(''Content-Type'', ''text/plain''),
                   (''Content-Disposition'', attachment ''17-a.txt'')],
        body = Piped [1]\<rparr>
   \<and> get_download None None 0
       [(''17-a.txt'', \<lparr>payload = [1], osize = 1, content_type = Some ''text/plain''\<rparr>),
        (''18-a.txt'', \<lparr>payload = [2, 3], osize = 2, content_type = Some ''text/plain''\<rparr>)]
       ''18-a.txt'' =
       \<lparr>status = 200,
        headers = [(''Content-Type'', ''text/plain''),
                   (''Content-Disposition'', attachment ''18-a.txt'')],
        body = Piped [2, 3]\<rparr>"
proof -
  let ?f1 = "\<lparr>originalname = ''a.txt'', mimetype = ''text/plain'',
              buffer = [1 :: byte], file_size = 1\<rparr>"
  let ?f2 = "\<lparr>originalname = ''a.txt'', mimetype = ''text/plain'',
              buffer = [2, 3 :: byte], file_size = 2\<rparr>"
  let ?b1 = "[(''17-a.txt'',
               \<lparr>payload = [1 :: byte], osize = 1, content_type = Some ''text/plain''\<rparr>)]"
  let ?b2 = "[(''17-a.txt'',
               \<lparr>payload = [1 :: byte], osize = 1, content_type = Some ''text/plain''\<rparr>),
              (''18-a.txt'',
               \<lparr>payload = [2, 3 :: byte], osize = 2, content_type = Some ''text/plain''\<rparr>)]"
  have n17: "number_to_string 17 = ''17''" by (simp add: number_to_string_eval)
  have n18: "number_to_string 18 = ''18''" by (simp add: number_to_string_eval)
  have v: "valid_header_value ''a.txt''" "valid_header_value ''text/plain''"
    by (simp_all add: valid_header_value_simps valid_header_char_def)
  have up1: "post_upload 17 None (Some ?f1) [] =
      (\<lparr>status = 302, headers = [(''Location'', ''/'')], body = Redirect ''/''\<rparr>, ?b1,
       [PutObject ''17-a.txt''])"
    using upload_key_is_time_and_name [where ?t1.0 = 17 and ?f1.0 = ?f1 and b = "[]"]
    by (simp add: n17)
  have up2: "post_upload 18 None (Some ?f2) ?b1 =
      (\<lparr>status = 302, headers = [(''Location'', ''/'')], body = Redirect ''/''\<rparr>, ?b2,
       [PutObject ''18-a.txt''])"
    using upload_key_is_time_and_name [where ?t1.0 = 18 and ?f1.0 = ?f2 and b = ?b1]
    by (simp add: n18)
  from v up1 up2
       upload_key_is_time_and_name
         [where ?t1.0 = 17 and ?t2.0 = 18 and ?f1.0 = ?f1 and ?f2.0 = ?f2 and b = "[]" and n = 0
            and e = NoSuchKey]
  have "get_download None None 0 ?b2 ''17-a.txt'' =
       \<lparr>status = 200,
        headers = [(''Content-Type'', ''text/plain''),
                   (''Content-Disposition'', attachment ''17-a.txt'')],
        body = Piped [1]\<rparr>
     \<and> get_download None None 0 ?b2 ''18-a.txt'' =
       \<lparr>status = 200,
        headers = [(''Content-Type'', ''text/plain''),
                   (''Content-Disposition'', attachment ''18-a.txt'')],
        body = Piped [2, 3]\<rparr>"
    by (simp add: n17 n18)
  with up1 up2 show ?thesis by simp
qed

text \<open>
  The claim as stated covers every pair of uploads. Two uploads of the same filename within
  one millisecond have one key: the second replaces the object of the first, and the key
  downloads with the content of the second.
\<close>

theorem uploads_in_one_millisecond_counterexample:
  "post_upload 17 None
     (Some \<lparr>originalname = ''a.txt'', mimetype = ''text/plain'', buffer = [1], file_size = 1\<rparr>)
     [] =
     (\<lparr>status = 302, headers = [(''Location'', ''/'')], body = Redirect ''/''\<rparr>,
      [(''17-a.txt'', \<lparr>payload = [1], osize = 1, content_type = Some ''text/plain''\<rparr>)],
      [PutObject ''17-a.txt''])
   \<and> post_upload 17 None
     (Some \<lparr>originalname = ''a.txt'', mimetype = ''text/plain'', buffer = [2, 3], file_size = 2\<rparr>)
     [(''17-a.txt'', \<lparr>payload = [1], osize = 1, content_type = Some ''text/plain''\<rparr>)] =
     (\<lparr>status = 302, headers = [(''Location'', ''/'')], body = Redirect ''/''\<rparr>,
      [(''17-a.txt'', \<lparr>payload = [2, 3], osize = 2, content_type = Some ''text/plain''\<rparr>)],
      [PutObject ''17-a.txt''])
   \<and> get_download None None 0
       [(''17-a.txt'', \<lparr>payload = [2, 3], osize = 2, content_type = Some ''text/plain''\<rparr>)]
       ''17-a.txt'' =
       \<lparr>status = 200,
        headers = [(''Content-Type'', ''text/plain''),
                   (''Content-Disposition'', attachment ''17-a.txt'')],
        body = Piped [2, 3]\<rparr>"
proof -
  have k: "new_objectName 17 ''a.txt'' = ''17-a.txt''"
    by (simp add: new_objectName_def number_to_string_eval)
  have v: "valid_header_value ''text/plain''" "valid_header_value ''17-a.txt''"
    by (simp_all add: valid_header_value_simps valid_header_char_def)
  have "get_download None None 0
       [(''17-a.txt'', \<lparr>payload = [2, 3], osize = 2, content_type = Some ''text/plain''\<rparr>)]
       ''17-a.txt'' =
       \<lparr>status = 200,
        headers = [(''Content-Type'', ''text/plain''),
                   (''Content-Disposition'', attachment ''17-a.txt'')],
        body = Piped [2, 3]\<rparr>"
    using download_stored [OF _ _ v, of _ "\<lparr>payload = [2, 3], osize = 2, content_type = Some ''text/plain''\<rparr>" 0]
    by simp
  then show ?thesis by (simp add: post_upload_stored k)
qed

end
